theory Spec2Isabelle
  imports Main
begin

section \<open>The describe command of imgpkg (pkg/imgpkg/cmd/describe.go)\<close>

text \<open>
  The command validates its \<open>--output-type\<close> flag, asks the resolver
  (\<open>api.DescribeBundle\<close>) for the description tree of a bundle and, for the
  \<open>text\<close> output type, prints the tree through a \<open>goui.UI\<close>. Strings are Go
  strings (byte sequences), so \<open>string\<close>; a format \<open>"Image: %s\n"\<close> applied to
  \<open>s\<close> is \<open>''Image: '' @ s @ ''\<newline>''\<close>.
\<close>

subsection \<open>Errors, panics\<close>

text \<open>A Go \<open>error\<close> value, by its message (\<open>fmt.Errorf\<close> builds one).\<close>

datatype error = Errorf string

text \<open>What a call ends with: it returns, or it panics with a message.\<close>

datatype 'a outcome = Return 'a | Panic string

subsection \<open>The description tree (package api)\<close>

text \<open>
  Modelled from the spec: the types \<open>api.ImageInfo\<close>, \<open>api.Content\<close> and
  \<open>api.BundleDescription\<close> are declared outside describe.go. The printer reads the
  fields \<open>Image\<close>, \<open>Origin\<close>, \<open>Content.Bundles\<close> and \<open>Content.Images\<close>; the
  spec gives an image node a third field, its annotations, a mapping of string keys to
  string values.
\<close>

record ImageInfo =
  Image :: string
  Origin :: string
  Annotations :: "string \<rightharpoonup> string"

datatype BundleDescription =
  BundleDescription (Image: string) (Origin: string) (Content: Content)
and Content =
  Content (Bundles: "BundleDescription list") (Images: "ImageInfo list")

subsection \<open>The user interface (goui.UI and its decorators)\<close>

text \<open>
  Modelled from the spec: \<open>goui.UI\<close>, \<open>goui.NewIndentingUI\<close> and
  \<open>util.NewUIPrefixedWriter\<close> are declared outside describe.go. A UI is the
  terminal UI the command was built with (\<open>*goui.ConfUI\<close>) or a decorator around a
  parent UI: the indenting UI puts one indentation unit, two spaces, in front of what
  it is asked to print, and the prefixed writer puts its prefix in front. What has been
  written to the terminal is the list of the texts the terminal UI received, one per
  \<open>BeginLinef\<close> call, in order.
\<close>

datatype UI = ConfUI | IndentingUI UI | UIPrefixWriter string UI

definition NewIndentingUI :: "UI \<Rightarrow> UI" where
  "NewIndentingUI parent = IndentingUI parent"

definition NewUIPrefixedWriter :: "string \<Rightarrow> UI \<Rightarrow> UI" where
  "NewUIPrefixedWriter prefix parent = UIPrefixWriter prefix parent"

fun BeginLinef :: "UI \<Rightarrow> string \<Rightarrow> string list \<Rightarrow> string list" where
  "BeginLinef ConfUI s out = out @ [s]"
| "BeginLinef (IndentingUI parent) s out = BeginLinef parent (''  '' @ s) out"
| "BeginLinef (UIPrefixWriter prefix parent) s out = BeginLinef parent (prefix @ s) out"

subsection \<open>References (package regname of go-containerregistry)\<close>

text \<open>
  \<open>regname.ParseReference\<close> belongs to a library and is a parameter of the model: a
  function from the text of a reference to an error or a parsed reference. The
  library has two kinds of reference, a tag and a digest, each with its repository;
  \<open>Identifier\<close> is the tag of the first and the digest of the second.
\<close>

datatype Reference = Tag string string | Digest string string

fun Identifier :: "Reference \<Rightarrow> string" where
  "Identifier (Tag repository tag) = tag"
| "Identifier (Digest repository digest) = digest"

subsection \<open>Options of the command\<close>

text \<open>
  \<open>BundleFlags\<close> and \<open>RegistryFlags\<close> are declared outside describe.go; the
  command reads \<open>BundleFlags.Bundle\<close> and hands \<open>RegistryFlags.AsRegistryOpts()\<close>
  to the resolver, so the registry flags are a type parameter and \<open>AsRegistryOpts\<close>
  a parameter of \<open>Run\<close>.
\<close>

record BundleFlags =
  Bundle :: string

record 'f DescribeOptions =
  ui :: UI
  BundleFlags :: BundleFlags
  RegistryFlags :: 'f
  Concurrency :: int
  OutputType :: string

definition NewDescribeOptions :: "BundleFlags \<Rightarrow> 'f \<Rightarrow> int \<Rightarrow> string \<Rightarrow> 'f DescribeOptions" where
  "NewDescribeOptions b r c t =
     \<lparr>ui = ConfUI, BundleFlags = b, RegistryFlags = r, Concurrency = c, OutputType = t\<rparr>"

definition DescribeOutputType :: "string list" where
  "DescribeOutputType = [''text'', ''yaml'']"

text \<open>The loop of \<open>validateFlags\<close>: the first entry equal to the flag, or the initial value.\<close>

fun validateFlags_loop :: "string list \<Rightarrow> string \<Rightarrow> string \<Rightarrow> string" where
  "validateFlags_loop [] flag outputType = outputType"
| "validateFlags_loop (s # rest) flag outputType =
     (if s = flag then s else validateFlags_loop rest flag outputType)"

definition validateFlags :: "'f DescribeOptions \<Rightarrow> error option" where
  "validateFlags d =
     (let outputType = validateFlags_loop DescribeOutputType (OutputType d) ''''
      in if outputType = ''''
         then Some (Errorf ''--output-type can only have the following values [text, yaml]'')
         else None)"

subsection \<open>The text printer\<close>

record bundleTextPrinter =
  ui :: UI

text \<open>
  \<open>printerRec\<close> with its two loops: \<open>printerRec_bundles\<close> is the loop over
  \<open>description.Content.Bundles\<close>, \<open>printerRec_images\<close> the loop over
  \<open>description.Content.Images\<close>. The receiver is not read and is left out.
\<close>

fun printerRec_images :: "ImageInfo list \<Rightarrow> UI \<Rightarrow> string list \<Rightarrow> string list" where
  "printerRec_images [] indentLogger out = out"
| "printerRec_images (img # rest) indentLogger out =
     (let out = BeginLinef indentLogger (''Image: '' @ ImageInfo.Image img @ ''\<newline>'') out;
          out = BeginLinef indentLogger ''Type: Image\<newline>'' out;
          out = BeginLinef indentLogger (''Origin: '' @ ImageInfo.Origin img @ ''\<newline>'') out
      in printerRec_images rest indentLogger out)"

fun printerRec :: "BundleDescription \<Rightarrow> UI \<Rightarrow> string list \<Rightarrow> string list"
and printerRec_bundles :: "BundleDescription list \<Rightarrow> UI \<Rightarrow> string list \<Rightarrow> string list"
where
  "printerRec (BundleDescription ref origin (Content.Content bundles images)) logger out =
     (let out = BeginLinef logger ''Images:\<newline>'' out;
          indentLogger = NewIndentingUI logger;
          out = printerRec_bundles bundles indentLogger out
      in printerRec_images images indentLogger out)"
| "printerRec_bundles [] indentLogger out = out"
| "printerRec_bundles (b # rest) indentLogger out =
     (let out = BeginLinef indentLogger (''Image: '' @ BundleDescription.Image b @ ''\<newline>'') out;
          out = BeginLinef indentLogger ''Type: Bundle\<newline>'' out;
          out = BeginLinef indentLogger (''Origin: '' @ BundleDescription.Origin b @ ''\<newline>'') out;
          out = printerRec b indentLogger out
      in printerRec_bundles rest indentLogger out)"

definition Print ::
  "(string \<Rightarrow> error + Reference) \<Rightarrow> bundleTextPrinter \<Rightarrow> BundleDescription
     \<Rightarrow> string list \<Rightarrow> string list outcome" where
  "Print ParseReference p description out =
     (let logger = NewUIPrefixedWriter '''' (bundleTextPrinter.ui p)
      in case ParseReference (BundleDescription.Image description) of
           Inl err \<Rightarrow>
             Panic (''Internal consistency: expected '' @ BundleDescription.Image description
                    @ '' to be a digest reference'')
         | Inr bundleRef \<Rightarrow>
             (let out = BeginLinef logger (''Bundle SHA: '' @ Identifier bundleRef @ ''\<newline>'') out;
                  out = BeginLinef logger ''\<newline>'' out
              in Return (printerRec description (bundleTextPrinter.ui p) out)))"

subsection \<open>Run\<close>

text \<open>
  The resolver \<open>api.DescribeBundle\<close> is declared outside describe.go and is a
  parameter: given the bundle, its options and the registry options it answers with an
  error or a description. It holds a logger on the command's UI, so it may write to the
  terminal: it takes what has been written and returns it, possibly longer.
\<close>

datatype LogLevel = LogWarn

datatype UILevelLogger = UILevelLogger LogLevel UI

definition NewUILevelLogger :: "LogLevel \<Rightarrow> UI \<Rightarrow> UILevelLogger" where
  "NewUILevelLogger level u = UILevelLogger level u"

record DescribeOpts =
  Logger :: UILevelLogger
  Concurrency :: int

type_synonym 'o resolver =
  "string \<Rightarrow> DescribeOpts \<Rightarrow> 'o \<Rightarrow> string list \<Rightarrow> (error + BundleDescription) \<times> string list"

text \<open>
  The state a run works on: what has been written to the terminal, and the calls of
  the resolver made so far, each with its arguments.
\<close>

record 'o world =
  written :: "string list"
  resolver_calls :: "(string \<times> DescribeOpts \<times> 'o) list"

definition Run ::
  "(string \<Rightarrow> error + Reference) \<Rightarrow> ('f \<Rightarrow> 'o) \<Rightarrow> 'o resolver \<Rightarrow> 'f DescribeOptions
     \<Rightarrow> 'o world \<Rightarrow> error option outcome \<times> 'o world" where
  "Run ParseReference AsRegistryOpts DescribeBundle d w =
     (case validateFlags d of
        Some err \<Rightarrow> (Return (Some err), w)
      | None \<Rightarrow>
          (let levelLogger = NewUILevelLogger LogWarn (DescribeOptions.ui d);
               bundle = Bundle (BundleFlags d);
               opts = \<lparr>Logger = levelLogger, Concurrency = DescribeOptions.Concurrency d\<rparr>;
               registryOpts = AsRegistryOpts (RegistryFlags d);
               (result, out) = DescribeBundle bundle opts registryOpts (written w);
               w = w\<lparr>written := out,
                      resolver_calls := resolver_calls w @ [(bundle, opts, registryOpts)]\<rparr>
           in case result of
                Inl err \<Rightarrow> (Return (Some err), w)
              | Inr description \<Rightarrow>
                  if OutputType d = ''text''
                  then (let p = \<lparr>bundleTextPrinter.ui = DescribeOptions.ui d\<rparr>
                        in case Print ParseReference p description (written w) of
                             Panic msg \<Rightarrow> (Panic msg, w)
                           | Return out \<Rightarrow> (Return None, w\<lparr>written := out\<rparr>))
                  else (Return None, w)))"

section \<open>What the text is measured against\<close>

subsection \<open>Lines and indentation\<close>

text \<open>
  The text a UI puts in front of what it is asked to print: nothing for the terminal
  UI, two more spaces for each indenting UI, the prefix for a prefixed writer.
\<close>

fun prefix_of :: "UI \<Rightarrow> string" where
  "prefix_of ConfUI = []"
| "prefix_of (IndentingUI parent) = prefix_of parent @ ''  ''"
| "prefix_of (UIPrefixWriter prefix parent) = prefix_of parent @ prefix"

text \<open>The three lines of an image, and the lines of a bundle with all below it.\<close>

definition image_block :: "UI \<Rightarrow> ImageInfo \<Rightarrow> string list" where
  "image_block logger img =
     [prefix_of logger @ ''Image: '' @ ImageInfo.Image img @ ''\<newline>'',
      prefix_of logger @ ''Type: Image\<newline>'',
      prefix_of logger @ ''Origin: '' @ ImageInfo.Origin img @ ''\<newline>'']"

definition bundle_block :: "UI \<Rightarrow> BundleDescription \<Rightarrow> string list" where
  "bundle_block logger b =
     [prefix_of logger @ ''Image: '' @ BundleDescription.Image b @ ''\<newline>'',
      prefix_of logger @ ''Type: Bundle\<newline>'',
      prefix_of logger @ ''Origin: '' @ BundleDescription.Origin b @ ''\<newline>'']
     @ printerRec b logger []"

text \<open>A line indented by \<open>k\<close> levels of two spaces, and a line without its indentation.\<close>

definition indent :: "nat \<Rightarrow> string \<Rightarrow> string" where
  "indent k s = replicate (2 * k) (CHR '' '') @ s"

definition unindent :: "string \<Rightarrow> string" where
  "unindent l = dropWhile (\<lambda>c. c = CHR '' '') l"

definition is_label :: "string \<Rightarrow> bool" where
  "is_label l = (unindent l = ''Images:\<newline>'')"

definition is_Type_Bundle :: "string \<Rightarrow> bool" where
  "is_Type_Bundle l = (unindent l = ''Type: Bundle\<newline>'')"

definition is_Type_Image :: "string \<Rightarrow> bool" where
  "is_Type_Image l = (unindent l = ''Type: Image\<newline>'')"

definition is_Image_line :: "string \<Rightarrow> bool" where
  "is_Image_line l = (take 7 (unindent l) = ''Image: '')"

definition is_Origin_line :: "string \<Rightarrow> bool" where
  "is_Origin_line l = (take 8 (unindent l) = ''Origin: '')"

text \<open>
  Every \<open>Type:\<close> line of a text has an \<open>Image:\<close> line right before it and an
  \<open>Origin:\<close> line right after it.
\<close>

definition Type_lines_framed :: "string list \<Rightarrow> bool" where
  "Type_lines_framed ls =
     (\<forall>i<length ls. is_Type_Bundle (ls ! i) \<or> is_Type_Image (ls ! i) \<longrightarrow>
        0 < i \<and> is_Image_line (ls ! (i - 1)) \<and> Suc i < length ls \<and> is_Origin_line (ls ! Suc i))"

subsection \<open>The nodes of a tree, with their depths\<close>

text \<open>
  The nodes below a bundle, each with its depth from the root, in the order of the
  tree: the child bundles first, each followed by the nodes below it, then the child
  images. \<open>nodes k d\<close> takes \<open>d\<close> to be at depth \<open>k\<close>, so the children of the
  root are at depth 1 in \<open>nodes 0 root\<close>. The root itself is not listed.
\<close>

datatype node = BundleNode BundleDescription | ImageNode ImageInfo

fun nodes :: "nat \<Rightarrow> BundleDescription \<Rightarrow> (nat \<times> node) list"
and nodes_bundles :: "nat \<Rightarrow> BundleDescription list \<Rightarrow> (nat \<times> node) list"
where
  "nodes k (BundleDescription ref origin (Content.Content bundles images)) =
     nodes_bundles (Suc k) bundles @ map (\<lambda>img. (Suc k, ImageNode img)) images"
| "nodes_bundles k [] = []"
| "nodes_bundles k (b # rest) = (k, BundleNode b) # nodes k b @ nodes_bundles k rest"

fun is_BundleNode :: "node \<Rightarrow> bool" where
  "is_BundleNode (BundleNode b) = True"
| "is_BundleNode (ImageNode img) = False"

definition BundleNodes :: "BundleDescription \<Rightarrow> node list" where
  "BundleNodes d = filter is_BundleNode (map snd (nodes 0 d))"

definition ImageNodes :: "BundleDescription \<Rightarrow> node list" where
  "ImageNodes d = filter (\<lambda>n. \<not> is_BundleNode n) (map snd (nodes 0 d))"

text \<open>The block of a node at depth \<open>k\<close>: its three lines, each indented \<open>k\<close> levels.\<close>

fun node_block :: "nat \<times> node \<Rightarrow> string list" where
  "node_block (k, BundleNode b) =
     [indent k (''Image: '' @ BundleDescription.Image b @ ''\<newline>''),
      indent k ''Type: Bundle\<newline>'',
      indent k (''Origin: '' @ BundleDescription.Origin b @ ''\<newline>'')]"
| "node_block (k, ImageNode img) =
     [indent k (''Image: '' @ ImageInfo.Image img @ ''\<newline>''),
      indent k ''Type: Image\<newline>'',
      indent k (''Origin: '' @ ImageInfo.Origin img @ ''\<newline>'')]"

text \<open>
  All the lines of a node at depth \<open>k\<close>: its block and, for a bundle, the
  \<open>Images:\<close> label that opens the list of what the bundle holds, right after the
  block and indented \<open>k\<close> levels as the block is.
\<close>

fun node_lines :: "nat \<times> node \<Rightarrow> string list" where
  "node_lines (k, BundleNode b) = node_block (k, BundleNode b) @ [indent k ''Images:\<newline>'']"
| "node_lines (k, ImageNode img) = node_block (k, ImageNode img)"

subsection \<open>The sample of the comment above the printer\<close>

text \<open>
  The comment above \<open>bundleTextPrinter\<close> shows the output for a bundle that holds
  one bundle with two images, the first with an annotation, and the second image
  once more beside that bundle.
\<close>

definition sample_root_ref :: string where
  "sample_root_ref = ''localhost:5000/describe-test-collocated@sha256:aaaaad700949154e429d28661d01c99d53a38af0d5275842ccbf0bf6dbef8ca4''"

definition sample_bundle1_ref :: string where
  "sample_bundle1_ref = ''new.registry.io/simple-app-install-package@sha256:d211dd700949154e429d28661d01c99d53a38af0d5275842ccbf0bf6dbef8ca4''"

definition sample_bundle1_origin :: string where
  "sample_bundle1_origin = ''my.registry.io/bundle1@sha256:d211dd700949154e429d28661d01c99d53a38af0d5275842ccbf0bf6dbef8ca4''"

definition sample_img1_ref :: string where
  "sample_img1_ref = ''new.registry.io/simple-app-install-package@sha256:4c8b96d4fffdfae29258d94a22ae4ad1fe36139d47288b8960d9958d1e63a9d0''"

definition sample_img1_origin :: string where
  "sample_img1_origin = ''registry.io/img1@sha256:4c8b96d4fffdfae29258d94a22ae4ad1fe36139d47288b8960d9958d1e63a9d0''"

definition sample_img2_ref :: string where
  "sample_img2_ref = ''new.registry.io/simple-app-install-package@sha256:47ae428a887c41ba0aedf87d560eb305a8aa522ffb80ac1c96a37b16df038e0f''"

definition sample_img2_origin :: string where
  "sample_img2_origin = ''registry.io/img2@sha256:47ae428a887c41ba0aedf87d560eb305a8aa522ffb80ac1c96a37b16df038e0f''"

definition sample_img1 :: ImageInfo where
  "sample_img1 =
     \<lparr>ImageInfo.Image = sample_img1_ref, ImageInfo.Origin = sample_img1_origin,
      Annotations = Map.empty(''kbld.carvel.dev/id'' \<mapsto> ''my.registry.io/simple-application'')\<rparr>"

definition sample_img2 :: ImageInfo where
  "sample_img2 = \<lparr>ImageInfo.Image = sample_img2_ref, ImageInfo.Origin = sample_img2_origin,
      Annotations = Map.empty\<rparr>"

definition sample_bundle1 :: BundleDescription where
  "sample_bundle1 =
     BundleDescription sample_bundle1_ref sample_bundle1_origin
       (Content.Content [] [sample_img1, sample_img2])"

definition sample_tree :: BundleDescription where
  "sample_tree =
     BundleDescription sample_root_ref sample_root_ref
       (Content.Content [sample_bundle1] [sample_img2])"

definition empty_root :: BundleDescription where
  "empty_root = BundleDescription sample_root_ref sample_root_ref (Content.Content [] [])"

text \<open>
  The text output format of the spec (its section on external interfaces), filled in
  for a root that holds one bundle with one image without annotations: there the
  \<open>Images:\<close> label of the nested bundle and the image below it stand one level
  further in than the printer puts them.
\<close>

definition nested_tree :: BundleDescription where
  "nested_tree =
     BundleDescription sample_root_ref sample_root_ref
       (Content.Content
          [BundleDescription sample_bundle1_ref sample_bundle1_origin
             (Content.Content [] [sample_img2])] [])"

definition spec_format_nested :: "string list" where
  "spec_format_nested =
     [''Images:\<newline>'',
      ''  Image: '' @ sample_bundle1_ref @ ''\<newline>'',
      ''  Type: Bundle\<newline>'',
      ''  Origin: '' @ sample_bundle1_origin @ ''\<newline>'',
      ''    Images:\<newline>'',
      ''      Image: '' @ sample_img2_ref @ ''\<newline>'',
      ''      Type: Image\<newline>'',
      ''      Origin: '' @ sample_img2_origin @ ''\<newline>'']"

text \<open>
  What the library answers at the references used below: \<open>ParseReference\<close> tries a
  tag reference first and a digest reference second, so it accepts both
  \<open>repository@sha256:...\<close> and \<open>repository:tag\<close>.
\<close>

definition sample_tag_ref :: string where
  "sample_tag_ref = ''my.registry.io/bundle1:latest''"

definition sample_ParseReference :: "string \<Rightarrow> error + Reference" where
  "sample_ParseReference s =
     (if s = sample_root_ref
      then Inr (Digest ''localhost:5000/describe-test-collocated''
                  ''sha256:aaaaad700949154e429d28661d01c99d53a38af0d5275842ccbf0bf6dbef8ca4'')
      else if s = sample_tag_ref
      then Inr (Tag ''my.registry.io/bundle1'' ''latest'')
      else Inl (Errorf (''could not parse reference: '' @ s)))"

text \<open>Two resolvers: one answers with the sample tree, one fails.\<close>

definition sample_DescribeBundle :: "unit resolver" where
  "sample_DescribeBundle bundle opts registryOpts out = (Inr sample_tree, out)"

definition failing_DescribeBundle :: "unit resolver" where
  "failing_DescribeBundle bundle opts registryOpts out =
     (Inl (Errorf ''GET https://localhost:5000/v2/: UNAUTHORIZED''), out)"

definition sample_options :: "string \<Rightarrow> unit DescribeOptions" where
  "sample_options outputType =
     NewDescribeOptions \<lparr>Bundle = sample_root_ref\<rparr> () 5 outputType"

definition fresh_world :: "unit world" where
  "fresh_world = \<lparr>written = [], resolver_calls = []\<rparr>"

section \<open>The printer writes block after block\<close>

lemma BeginLinef_appends: "BeginLinef logger s out = out @ [prefix_of logger @ s]"
  by (induction logger s out rule: BeginLinef.induct) simp_all

lemma printerRec_images_appends:
  "printerRec_images images logger out = out @ concat (map (image_block logger) images)"
  by (induction images arbitrary: out) (simp_all add: BeginLinef_appends image_block_def)

lemma printerRec_appends_all:
  "\<forall>out'. printerRec d logger out' = out' @ printerRec d logger []"
  "\<forall>out'. printerRec_bundles bs logger' out' = out' @ printerRec_bundles bs logger' []"
proof (induction d logger "out::string list" and bs logger' "out::string list" rule: printerRec_printerRec_bundles.induct)
  case (1 ref origin bundles images logger out)
  have a: "o1 \<noteq> [] \<Longrightarrow> printerRec_bundles bundles (NewIndentingUI logger) o1 = o1 @ printerRec_bundles bundles (NewIndentingUI logger) []" for o1
    using "1.IH" by blast
  show ?case
    by (simp add: BeginLinef_appends printerRec_images_appends Let_def a)
next
  case (2 indentLogger out)
  show ?case by simp
next
  case (3 b rest indentLogger out)
  have a: "o1 \<noteq> [] \<Longrightarrow> printerRec b indentLogger o1 = o1 @ printerRec b indentLogger []" for o1
    using "3.IH"(1) by blast
  have b: "o1 \<noteq> [] \<Longrightarrow> printerRec_bundles rest indentLogger o1 = o1 @ printerRec_bundles rest indentLogger []" for o1
    using "3.IH"(2) by blast
  show ?case
    by (simp add: BeginLinef_appends Let_def a b)
qed


lemma printerRec_appends: "printerRec d logger out = out @ printerRec d logger []"
  using printerRec_appends_all(1) by blast

lemma printerRec_bundles_blocks:
  "printerRec_bundles bs logger out = out @ concat (map (bundle_block logger) bs)"
proof (induction bs arbitrary: out)
  case Nil
  show ?case by simp
next
  case (Cons b rest)
  have "printerRec_bundles (b # rest) logger out =
          printerRec_bundles rest logger
            (printerRec b logger
              (out @ [prefix_of logger @ ''Image: '' @ BundleDescription.Image b @ ''\<newline>'',
                      prefix_of logger @ ''Type: Bundle\<newline>'',
                      prefix_of logger @ ''Origin: '' @ BundleDescription.Origin b @ ''\<newline>'']))"
    by (simp add: BeginLinef_appends Let_def)
  also have "\<dots> = (out @ bundle_block logger b) @ concat (map (bundle_block logger) rest)"
    unfolding Cons.IH
    by (subst printerRec_appends) (simp add: bundle_block_def)
  finally show ?case by simp
qed

lemma printerRec_closed_form:
  "printerRec d logger out =
     out @ [prefix_of logger @ ''Images:\<newline>'']
       @ concat (map (bundle_block (NewIndentingUI logger)) (Bundles (BundleDescription.Content d)))
       @ concat (map (image_block (NewIndentingUI logger)) (Images (BundleDescription.Content d)))"
proof (cases d)
  case (BundleDescription ref origin content)
  then show ?thesis
    by (cases content)
       (simp add: BeginLinef_appends printerRec_bundles_blocks printerRec_images_appends Let_def)
qed

lemma dropWhile_replicate_same:
  "dropWhile (\<lambda>c. c = x) (replicate n x @ s) = dropWhile (\<lambda>c. c = x) s"
  by (induction n) simp_all

lemma unindent_indent_Cons [simp]:
  "c \<noteq> CHR '' '' \<Longrightarrow> unindent (indent k (c # cs)) = c # cs"
  by (simp add: unindent_def indent_def dropWhile_replicate_same)

lemma two_spaces: "''  '' = replicate 2 (CHR '' '')"
  by (simp add: numeral_2_eq_2)

lemma prefix_Suc:
  "prefix_of logger = replicate (2 * k) (CHR '' '') \<Longrightarrow>
   prefix_of (NewIndentingUI logger) = replicate (2 * Suc k) (CHR '' '')"
  unfolding NewIndentingUI_def prefix_of.simps two_spaces
  by (simp add: replicate_add[symmetric] del: replicate_Suc replicate.simps)

lemma indent_via_prefix:
  "prefix_of logger = replicate (2 * k) (CHR '' '') \<Longrightarrow> prefix_of logger @ s = indent k s"
  by (simp add: indent_def)

lemma images_at_level:
  assumes "prefix_of logger = replicate (2 * k) (CHR '' '')"
  shows "concat (map (image_block logger) images) =
           concat (map node_block (map (\<lambda>img. (k, ImageNode img)) images))"
  by (induction images) (simp_all add: image_block_def indent_via_prefix[OF assms])

lemma filter_node_block [simp]: "filter (\<lambda>l. \<not> is_label l) (node_block n) = node_block n"
  by (cases n rule: node_block.cases) (simp_all add: is_label_def)

lemma filter_node_blocks [simp]:
  "filter (\<lambda>l. \<not> is_label l) (concat (map node_block ns)) = concat (map node_block ns)"
  by (induction ns) simp_all

lemma printerRec_node_blocks_all:
  "\<forall>k. prefix_of logger = replicate (2 * k) (CHR '' '') \<longrightarrow>
     filter (\<lambda>l. \<not> is_label l) (printerRec d logger []) = concat (map node_block (nodes k d))"
  "\<forall>k. prefix_of logger' = replicate (2 * k) (CHR '' '') \<longrightarrow>
     filter (\<lambda>l. \<not> is_label l) (printerRec_bundles bs logger' []) =
       concat (map node_block (nodes_bundles k bs))"
proof (induction d logger "out::string list" and bs logger' "out::string list"
       rule: printerRec_printerRec_bundles.induct)
  case (1 ref origin bundles images logger out)
  show ?case
  proof (intro allI impI)
    fix k assume k: "prefix_of logger = replicate (2 * k) (CHR '' '')"
    have bs: "filter (\<lambda>l. \<not> is_label l) (printerRec_bundles bundles (NewIndentingUI logger) []) =
                concat (map node_block (nodes_bundles (Suc k) bundles))"
      using "1.IH" prefix_Suc[OF k] by blast
    have lbl: "is_label (prefix_of logger @ ''Images:\<newline>'')"
      by (simp add: indent_via_prefix[OF k] is_label_def)
    have "printerRec (BundleDescription ref origin (Content.Content bundles images)) logger [] =
            [prefix_of logger @ ''Images:\<newline>'']
            @ printerRec_bundles bundles (NewIndentingUI logger) []
            @ concat (map (image_block (NewIndentingUI logger)) images)"
      by (simp add: printerRec_closed_form printerRec_bundles_blocks)
    then show "filter (\<lambda>l. \<not> is_label l)
                 (printerRec (BundleDescription ref origin (Content.Content bundles images)) logger []) =
               concat (map node_block (nodes k (BundleDescription ref origin (Content.Content bundles images))))"
      using lbl bs images_at_level[OF prefix_Suc[OF k], of images]
      by (simp del: printerRec.simps map_map)
  qed
next
  case (2 indentLogger out)
  show ?case by simp
next
  case (3 b rest indentLogger out)
  show ?case
  proof (intro allI impI)
    fix k assume k: "prefix_of indentLogger = replicate (2 * k) (CHR '' '')"
    have a: "filter (\<lambda>l. \<not> is_label l) (printerRec b indentLogger []) = concat (map node_block (nodes k b))"
      using "3.IH"(1) k by blast
    have r: "filter (\<lambda>l. \<not> is_label l) (printerRec_bundles rest indentLogger []) =
               concat (map node_block (nodes_bundles k rest))"
      using "3.IH"(2) k by blast
    have "printerRec_bundles (b # rest) indentLogger [] =
            bundle_block indentLogger b @ printerRec_bundles rest indentLogger []"
      by (simp add: printerRec_bundles_blocks del: printerRec_bundles.simps)
    then show "filter (\<lambda>l. \<not> is_label l) (printerRec_bundles (b # rest) indentLogger []) =
                 concat (map node_block (nodes_bundles k (b # rest)))"
      using a r by (simp add: bundle_block_def indent_via_prefix[OF k] is_label_def del: printerRec_bundles.simps)
  qed
qed

lemmas line_kinds = is_Type_Bundle_def is_Type_Image_def is_Image_line_def is_Origin_line_def is_label_def

lemma Type_lines_framed_append:
  assumes "Type_lines_framed xs" and "Type_lines_framed ys"
  shows "Type_lines_framed (xs @ ys)"
  unfolding Type_lines_framed_def
proof (intro allI impI)
  fix i
  assume i: "i < length (xs @ ys)"
    and t: "is_Type_Bundle ((xs @ ys) ! i) \<or> is_Type_Image ((xs @ ys) ! i)"
  show "0 < i \<and> is_Image_line ((xs @ ys) ! (i - 1)) \<and> Suc i < length (xs @ ys)
          \<and> is_Origin_line ((xs @ ys) ! Suc i)"
  proof (cases "i < length xs")
    case True
    with t have "is_Type_Bundle (xs ! i) \<or> is_Type_Image (xs ! i)" by (simp add: nth_append)
    with assms(1) True have "0 < i \<and> is_Image_line (xs ! (i - 1)) \<and> Suc i < length xs
          \<and> is_Origin_line (xs ! Suc i)"
      unfolding Type_lines_framed_def by blast
    then show ?thesis by (auto simp: nth_append)
  next
    case False
    define j where "j = i - length xs"
    have ij: "i = length xs + j" using False by (simp add: j_def)
    have j: "j < length ys" using i ij by simp
    from t have "is_Type_Bundle (ys ! j) \<or> is_Type_Image (ys ! j)" by (simp add: ij nth_append)
    with assms(2) j have *: "0 < j \<and> is_Image_line (ys ! (j - 1)) \<and> Suc j < length ys
          \<and> is_Origin_line (ys ! Suc j)"
      unfolding Type_lines_framed_def by blast
    then have "i - 1 = length xs + (j - 1)" by (simp add: ij)
    then have "(xs @ ys) ! (i - 1) = ys ! (j - 1)" "(xs @ ys) ! Suc i = ys ! Suc j"
      by (simp_all only: nth_append_length_plus) (simp add: ij nth_append)
    with * show ?thesis by (simp add: ij)
  qed
qed

lemma Type_lines_framed_Nil: "Type_lines_framed []"
  by (simp add: Type_lines_framed_def)

lemma Type_lines_framed_single:
  "\<not> is_Type_Bundle l \<Longrightarrow> \<not> is_Type_Image l \<Longrightarrow> Type_lines_framed [l]"
  by (simp add: Type_lines_framed_def)

lemma Type_lines_framed_block:
  assumes "is_Image_line a" "\<not> is_Type_Bundle a" "\<not> is_Type_Image a"
    and "is_Origin_line c" "\<not> is_Type_Bundle c" "\<not> is_Type_Image c"
  shows "Type_lines_framed [a, t, c]"
  unfolding Type_lines_framed_def
proof (intro allI impI)
  fix i
  assume "i < length [a, t, c]"
    and t: "is_Type_Bundle ([a, t, c] ! i) \<or> is_Type_Image ([a, t, c] ! i)"
  then have "i = 0 \<or> i = 1 \<or> i = 2" by auto
  with t assms show "0 < i \<and> is_Image_line ([a, t, c] ! (i - 1)) \<and> Suc i < length [a, t, c]
          \<and> is_Origin_line ([a, t, c] ! Suc i)"
    by auto
qed

lemma image_block_framed:
  assumes "prefix_of logger = replicate (2 * k) (CHR '' '')"
  shows "Type_lines_framed (image_block logger img)"
  unfolding image_block_def indent_via_prefix[OF assms]
  by (rule Type_lines_framed_block) (simp_all add: line_kinds)

lemma image_blocks_framed:
  assumes "prefix_of logger = replicate (2 * k) (CHR '' '')"
  shows "Type_lines_framed (concat (map (image_block logger) images))"
  by (induction images)
     (simp_all add: Type_lines_framed_Nil Type_lines_framed_append image_block_framed[OF assms])

lemma printerRec_framed_all:
  "\<forall>k. prefix_of logger = replicate (2 * k) (CHR '' '') \<longrightarrow>
     Type_lines_framed (printerRec d logger [])"
  "\<forall>k. prefix_of logger' = replicate (2 * k) (CHR '' '') \<longrightarrow>
     Type_lines_framed (printerRec_bundles bs logger' [])"
proof (induction d logger "out::string list" and bs logger' "out::string list"
       rule: printerRec_printerRec_bundles.induct)
  case (1 ref origin bundles images logger out)
  show ?case
  proof (intro allI impI)
    fix k assume k: "prefix_of logger = replicate (2 * k) (CHR '' '')"
    have bs: "Type_lines_framed (printerRec_bundles bundles (NewIndentingUI logger) [])"
      using "1.IH" prefix_Suc[OF k] by blast
    have lbl: "Type_lines_framed [prefix_of logger @ ''Images:\<newline>'']"
      unfolding indent_via_prefix[OF k]
      by (rule Type_lines_framed_single) (simp_all add: line_kinds)
    have "printerRec (BundleDescription ref origin (Content.Content bundles images)) logger [] =
            [prefix_of logger @ ''Images:\<newline>'']
            @ printerRec_bundles bundles (NewIndentingUI logger) []
            @ concat (map (image_block (NewIndentingUI logger)) images)"
      by (simp add: printerRec_closed_form printerRec_bundles_blocks)
    then show "Type_lines_framed
                 (printerRec (BundleDescription ref origin (Content.Content bundles images)) logger [])"
      using lbl bs image_blocks_framed[OF prefix_Suc[OF k], of images]
      by (simp only: Type_lines_framed_append)
  qed
next
  case (2 indentLogger out)
  show ?case by (simp add: Type_lines_framed_Nil)
next
  case (3 b rest indentLogger out)
  show ?case
  proof (intro allI impI)
    fix k assume k: "prefix_of indentLogger = replicate (2 * k) (CHR '' '')"
    have a: "Type_lines_framed (printerRec b indentLogger [])"
      using "3.IH"(1) k by blast
    have r: "Type_lines_framed (printerRec_bundles rest indentLogger [])"
      using "3.IH"(2) k by blast
    have h: "Type_lines_framed
               [prefix_of indentLogger @ ''Image: '' @ BundleDescription.Image b @ ''\<newline>'',
                prefix_of indentLogger @ ''Type: Bundle\<newline>'',
                prefix_of indentLogger @ ''Origin: '' @ BundleDescription.Origin b @ ''\<newline>'']"
      unfolding indent_via_prefix[OF k]
      by (rule Type_lines_framed_block) (simp_all add: line_kinds)
    have "printerRec_bundles (b # rest) indentLogger [] =
            bundle_block indentLogger b @ printerRec_bundles rest indentLogger []"
      by (simp add: printerRec_bundles_blocks del: printerRec_bundles.simps)
    then show "Type_lines_framed (printerRec_bundles (b # rest) indentLogger [])"
      using a r h by (simp only: bundle_block_def Type_lines_framed_append)
  qed
qed

lemma count_Type_Bundle_blocks:
  "length (filter is_Type_Bundle (concat (map node_block ns))) =
     length (filter is_BundleNode (map snd ns))"
proof (induction ns)
  case Nil
  show ?case by simp
next
  case (Cons n ns)
  then show ?case by (cases n rule: node_block.cases) (simp_all add: line_kinds)
qed

lemma count_Type_Image_blocks:
  "length (filter is_Type_Image (concat (map node_block ns))) =
     length (filter (\<lambda>n. \<not> is_BundleNode n) (map snd ns))"
proof (induction ns)
  case Nil
  show ?case by simp
next
  case (Cons n ns)
  then show ?case by (cases n rule: node_block.cases) (simp_all add: line_kinds)
qed

lemma Type_line_not_label:
  "is_Type_Bundle l \<Longrightarrow> \<not> is_label l" "is_Type_Image l \<Longrightarrow> \<not> is_label l"
  by (simp_all add: line_kinds)

lemma filter_through_labels:
  assumes "\<And>l. P l \<Longrightarrow> \<not> is_label l"
  shows "filter P (filter (\<lambda>l. \<not> is_label l) ls) = filter P ls"
  using assms by (induction ls) auto

lemma prefix_ConfUI: "prefix_of ConfUI = replicate (2 * 0) (CHR '' '')"
  by simp

lemma printerRec_node_blocks:
  "filter (\<lambda>l. \<not> is_label l) (printerRec d ConfUI []) = concat (map node_block (nodes 0 d))"
  using printerRec_node_blocks_all(1) prefix_ConfUI by blast

lemma images_node_lines:
  "concat (map node_lines (map (\<lambda>img. (k, ImageNode img)) images)) =
   concat (map node_block (map (\<lambda>img. (k, ImageNode img)) images))"
  by (induction images) simp_all

lemma printerRec_node_lines_all:
  "\<forall>k. prefix_of logger = replicate (2 * k) (CHR '' '') \<longrightarrow>
     printerRec d logger [] = indent k ''Images:\<newline>'' # concat (map node_lines (nodes k d))"
  "\<forall>k. prefix_of logger' = replicate (2 * k) (CHR '' '') \<longrightarrow>
     printerRec_bundles bs logger' [] = concat (map node_lines (nodes_bundles k bs))"
proof (induction d logger "out::string list" and bs logger' "out::string list"
       rule: printerRec_printerRec_bundles.induct)
  case (1 ref origin bundles images logger out)
  show ?case
  proof (intro allI impI)
    fix k assume k: "prefix_of logger = replicate (2 * k) (CHR '' '')"
    have bs: "printerRec_bundles bundles (NewIndentingUI logger) [] =
                concat (map node_lines (nodes_bundles (Suc k) bundles))"
      using "1.IH" prefix_Suc[OF k] by blast
    have "printerRec (BundleDescription ref origin (Content.Content bundles images)) logger [] =
            [prefix_of logger @ ''Images:\<newline>'']
            @ printerRec_bundles bundles (NewIndentingUI logger) []
            @ concat (map (image_block (NewIndentingUI logger)) images)"
      by (simp add: printerRec_closed_form printerRec_bundles_blocks)
    then show "printerRec (BundleDescription ref origin (Content.Content bundles images)) logger [] =
               indent k ''Images:\<newline>'' #
               concat (map node_lines (nodes k (BundleDescription ref origin (Content.Content bundles images))))"
      using bs images_at_level[OF prefix_Suc[OF k], of images]
      by (simp add: indent_via_prefix[OF k] images_node_lines del: printerRec.simps map_map)
  qed
next
  case (2 indentLogger out)
  show ?case by simp
next
  case (3 b rest indentLogger out)
  show ?case
  proof (intro allI impI)
    fix k assume k: "prefix_of indentLogger = replicate (2 * k) (CHR '' '')"
    have a: "printerRec b indentLogger [] = indent k ''Images:\<newline>'' # concat (map node_lines (nodes k b))"
      using "3.IH"(1) k by blast
    have r: "printerRec_bundles rest indentLogger [] = concat (map node_lines (nodes_bundles k rest))"
      using "3.IH"(2) k by blast
    have "printerRec_bundles (b # rest) indentLogger [] =
            bundle_block indentLogger b @ printerRec_bundles rest indentLogger []"
      by (simp add: printerRec_bundles_blocks del: printerRec_bundles.simps)
    then show "printerRec_bundles (b # rest) indentLogger [] =
                 concat (map node_lines (nodes_bundles k (b # rest)))"
      using a r by (simp add: bundle_block_def indent_via_prefix[OF k] del: printerRec_bundles.simps printerRec.simps)
  qed
qed

lemma printerRec_node_lines:
  "printerRec d ConfUI [] = ''Images:\<newline>'' # concat (map node_lines (nodes 0 d))"
  using printerRec_node_lines_all(1)[of ConfUI d] prefix_ConfUI by (simp add: indent_def)

lemma printerRec_counts:
  "length (filter is_Type_Bundle (printerRec d ConfUI [])) = length (BundleNodes d)"
  "length (filter is_Type_Image (printerRec d ConfUI [])) = length (ImageNodes d)"
proof -
  have "filter is_Type_Bundle (printerRec d ConfUI []) =
          filter is_Type_Bundle (concat (map node_block (nodes 0 d)))"
    using filter_through_labels[OF Type_line_not_label(1), of is_Type_Bundle "printerRec d ConfUI []"]
    by (simp only: printerRec_node_blocks)
  then show "length (filter is_Type_Bundle (printerRec d ConfUI [])) = length (BundleNodes d)"
    by (simp only: count_Type_Bundle_blocks BundleNodes_def)
  have "filter is_Type_Image (printerRec d ConfUI []) =
          filter is_Type_Image (concat (map node_block (nodes 0 d)))"
    using filter_through_labels[OF Type_line_not_label(2), of is_Type_Image "printerRec d ConfUI []"]
    by (simp only: printerRec_node_blocks)
  then show "length (filter is_Type_Image (printerRec d ConfUI [])) = length (ImageNodes d)"
    by (simp only: count_Type_Image_blocks ImageNodes_def)
qed

lemma printerRec_framed: "Type_lines_framed (printerRec d ConfUI [])"
  using printerRec_framed_all(1) prefix_ConfUI by blast

lemma Print_parsed:
  assumes "ParseReference (BundleDescription.Image d) = Inr r"
  shows "Print ParseReference \<lparr>bundleTextPrinter.ui = ConfUI\<rparr> d out =
           Return (out @ [''Bundle SHA: '' @ Identifier r @ ''\<newline>'', ''\<newline>'']
                     @ printerRec d ConfUI [])"
  using assms printerRec_appends[of d ConfUI "out @ [''Bundle SHA: '' @ Identifier r @ ''\<newline>'', ''\<newline>'']"]
  by (simp add: Print_def NewUIPrefixedWriter_def Let_def)

lemma Print_not_parsed:
  assumes "ParseReference (BundleDescription.Image d) = Inl e"
  shows "Print ParseReference p d out =
           Panic (''Internal consistency: expected '' @ BundleDescription.Image d
                  @ '' to be a digest reference'')"
  using assms by (simp add: Print_def Let_def)

lemma header_framed:
  "Type_lines_framed [''Bundle SHA: '' @ s @ ''\<newline>'', ''\<newline>'']"
proof -
  have "Type_lines_framed ([''Bundle SHA: '' @ s @ ''\<newline>''] @ [''\<newline>''])"
    by (intro Type_lines_framed_append Type_lines_framed_single)
       (simp_all add: line_kinds unindent_def)
  then show ?thesis by simp
qed

section \<open>Validation of the output type\<close>

lemma validateFlags_loop_DescribeOutputType:
  "validateFlags_loop DescribeOutputType flag '''' =
     (if flag = ''text'' then ''text'' else if flag = ''yaml'' then ''yaml'' else '''')"
  by (auto simp: DescribeOutputType_def)

lemma validateFlags_eq:
  "validateFlags d =
     (if OutputType d = ''text'' \<or> OutputType d = ''yaml'' then None
      else Some (Errorf ''--output-type can only have the following values [text, yaml]''))"
  unfolding validateFlags_def validateFlags_loop_DescribeOutputType
  by (simp add: Let_def)

text \<open>
  C2. Validation succeeds (returns nil) for the output types \<open>text\<close> and \<open>yaml\<close>,
  and for every other string it returns the error whose message is exactly
  \<open>--output-type can only have the following values [text, yaml]\<close>.
\<close>

theorem validateFlags_text_yaml_only:
  "validateFlags d =
     (if OutputType d = ''text'' \<or> OutputType d = ''yaml'' then None
      else Some (Errorf ''--output-type can only have the following values [text, yaml]''))"
  by (rule validateFlags_eq)

section \<open>Run\<close>

text \<open>
  C3. When the output type is neither \<open>text\<close> nor \<open>yaml\<close>, \<open>Run\<close> returns the
  configuration error and leaves the state as it was: no call of the resolver is
  recorded and nothing is written, whatever the resolver would have answered.
\<close>

theorem Run_invalid_output_type_aborts:
  assumes "OutputType d \<noteq> ''text''" and "OutputType d \<noteq> ''yaml''"
  shows "Run ParseReference AsRegistryOpts DescribeBundle d w =
           (Return (Some (Errorf ''--output-type can only have the following values [text, yaml]'')), w)
         \<and> resolver_calls (snd (Run ParseReference AsRegistryOpts DescribeBundle d w)) = resolver_calls w
         \<and> written (snd (Run ParseReference AsRegistryOpts DescribeBundle d w)) = written w"
  using assms by (simp add: Run_def validateFlags_eq)

theorem Run_invalid_output_type_aborts_witness:
  "Run sample_ParseReference (\<lambda>f. f) sample_DescribeBundle (sample_options ''json'') fresh_world =
     (Return (Some (Errorf ''--output-type can only have the following values [text, yaml]'')),
      fresh_world)
   \<and> resolver_calls
         (snd (Run sample_ParseReference (\<lambda>f. f) sample_DescribeBundle (sample_options ''json'')
                 fresh_world)) = []"
  using Run_invalid_output_type_aborts
          [of "sample_options ''json''" sample_ParseReference "\<lambda>f. f" sample_DescribeBundle fresh_world]
  by (simp add: sample_options_def NewDescribeOptions_def fresh_world_def)

text \<open>
  C9. When the flags are valid and the resolver answers with an error, \<open>Run\<close>
  returns that very error. The terminal holds what the resolver left there and nothing
  more: the printer has not run (the result does not depend on how references parse),
  and the one call of the resolver is recorded with its arguments.
\<close>

theorem Run_resolver_error_unchanged:
  assumes "OutputType d = ''text'' \<or> OutputType d = ''yaml''"
    and "DescribeBundle (Bundle (BundleFlags d))
           \<lparr>Logger = NewUILevelLogger LogWarn (DescribeOptions.ui d),
            Concurrency = DescribeOptions.Concurrency d\<rparr>
           (AsRegistryOpts (RegistryFlags d)) (written w) = (Inl err, out)"
  shows "Run ParseReference AsRegistryOpts DescribeBundle d w =
           (Return (Some err),
            w\<lparr>written := out,
              resolver_calls := resolver_calls w @
                [(Bundle (BundleFlags d),
                  \<lparr>Logger = NewUILevelLogger LogWarn (DescribeOptions.ui d),
                   Concurrency = DescribeOptions.Concurrency d\<rparr>,
                  AsRegistryOpts (RegistryFlags d))]\<rparr>)"
  using assms by (auto simp add: Run_def Let_def validateFlags_eq)

theorem Run_resolver_error_unchanged_witness:
  "Run sample_ParseReference (\<lambda>f. f) failing_DescribeBundle (sample_options ''text'') fresh_world =
     (Return (Some (Errorf ''GET https://localhost:5000/v2/: UNAUTHORIZED'')),
      \<lparr>written = [],
       resolver_calls =
         [(sample_root_ref,
           \<lparr>Logger = UILevelLogger LogWarn ConfUI, Concurrency = 5\<rparr>, ())]\<rparr>)"
  using Run_resolver_error_unchanged
          [of "sample_options ''text''" failing_DescribeBundle "\<lambda>f. f" fresh_world
              "Errorf ''GET https://localhost:5000/v2/: UNAUTHORIZED''" "[]" sample_ParseReference]
  by (simp add: sample_options_def NewDescribeOptions_def fresh_world_def
        failing_DescribeBundle_def NewUILevelLogger_def)

text \<open>
  C10. With the output type \<open>yaml\<close> and a resolver that answers with a
  description, \<open>Run\<close> returns nil and writes nothing: the terminal holds what the
  resolver left there, so it is as it was before the run when the resolver itself
  wrote nothing. No printer runs.
\<close>

theorem Run_yaml_prints_nothing:
  assumes "OutputType d = ''yaml''"
    and "DescribeBundle (Bundle (BundleFlags d))
           \<lparr>Logger = NewUILevelLogger LogWarn (DescribeOptions.ui d),
            Concurrency = DescribeOptions.Concurrency d\<rparr>
           (AsRegistryOpts (RegistryFlags d)) (written w) = (Inr description, out)"
  shows "Run ParseReference AsRegistryOpts DescribeBundle d w =
           (Return None,
            w\<lparr>written := out,
              resolver_calls := resolver_calls w @
                [(Bundle (BundleFlags d),
                  \<lparr>Logger = NewUILevelLogger LogWarn (DescribeOptions.ui d),
                   Concurrency = DescribeOptions.Concurrency d\<rparr>,
                  AsRegistryOpts (RegistryFlags d))]\<rparr>)"
  using assms by (simp add: Run_def Let_def validateFlags_eq)

theorem Run_yaml_prints_nothing_witness:
  "Run sample_ParseReference (\<lambda>f. f) sample_DescribeBundle (sample_options ''yaml'') fresh_world =
     (Return None,
      \<lparr>written = [],
       resolver_calls =
         [(sample_root_ref,
           \<lparr>Logger = UILevelLogger LogWarn ConfUI, Concurrency = 5\<rparr>, ())]\<rparr>)"
  using Run_yaml_prints_nothing
          [of "sample_options ''yaml''" sample_DescribeBundle "\<lambda>f. f" fresh_world
              sample_tree "[]" sample_ParseReference]
  by (simp add: sample_options_def NewDescribeOptions_def fresh_world_def
        sample_DescribeBundle_def NewUILevelLogger_def)

section \<open>The text printer\<close>

text \<open>
  C4. \<open>printerRec\<close> writes, after what was written before, the \<open>Images:\<close> label,
  then the block of every child bundle in the order of \<open>Content.Bundles\<close> (each
  with everything below that bundle), then the block of every child image in the order
  of \<open>Content.Images\<close>: nothing is sorted and nothing is left out, since the blocks
  are those of the two lists entry by entry. So the block of a child bundle contains
  the block of each of its own images, also of an image that another bundle holds
  as well.
\<close>

theorem printerRec_bundles_before_images:
  "printerRec d logger out =
     out @ [prefix_of logger @ ''Images:\<newline>'']
       @ concat (map (bundle_block (NewIndentingUI logger)) (Bundles (BundleDescription.Content d)))
       @ concat (map (image_block (NewIndentingUI logger)) (Images (BundleDescription.Content d)))
   \<and> (\<forall>b \<in> set (Bundles (BundleDescription.Content d)).
        \<forall>img \<in> set (Images (BundleDescription.Content b)).
          \<exists>before after.
            bundle_block (NewIndentingUI logger) b =
              before @ image_block (NewIndentingUI (NewIndentingUI logger)) img @ after)"
proof (intro conjI ballI)
  show "printerRec d logger out =
     out @ [prefix_of logger @ ''Images:\<newline>'']
       @ concat (map (bundle_block (NewIndentingUI logger)) (Bundles (BundleDescription.Content d)))
       @ concat (map (image_block (NewIndentingUI logger)) (Images (BundleDescription.Content d)))"
    by (rule printerRec_closed_form)
next
  fix b img
  assume "img \<in> set (Images (BundleDescription.Content b))"
  then obtain xs ys where split: "Images (BundleDescription.Content b) = xs @ img # ys"
    by (auto simp: in_set_conv_decomp)
  let ?l = "NewIndentingUI logger"
  let ?head = "[prefix_of ?l @ ''Image: '' @ BundleDescription.Image b @ ''\<newline>'',
                prefix_of ?l @ ''Type: Bundle\<newline>'',
                prefix_of ?l @ ''Origin: '' @ BundleDescription.Origin b @ ''\<newline>'']"
  have "bundle_block ?l b =
          (?head @ [prefix_of ?l @ ''Images:\<newline>'']
             @ concat (map (bundle_block (NewIndentingUI ?l)) (Bundles (BundleDescription.Content b)))
             @ concat (map (image_block (NewIndentingUI ?l)) xs))
          @ image_block (NewIndentingUI ?l) img
          @ concat (map (image_block (NewIndentingUI ?l)) ys)"
    unfolding bundle_block_def printerRec_closed_form[of b ?l "[]"] split by simp
  then show "\<exists>before after.
            bundle_block ?l b = before @ image_block (NewIndentingUI ?l) img @ after"
    by blast
qed

theorem printerRec_bundles_before_images_witness:
  "printerRec sample_tree ConfUI [] =
     [''Images:\<newline>'']
       @ bundle_block (NewIndentingUI ConfUI) sample_bundle1
       @ image_block (NewIndentingUI ConfUI) sample_img2
   \<and> (\<exists>before after.
        bundle_block (NewIndentingUI ConfUI) sample_bundle1 =
          before @ image_block (NewIndentingUI (NewIndentingUI ConfUI)) sample_img2 @ after)"
  using printerRec_bundles_before_images [of sample_tree ConfUI "[]"]
  by (simp add: sample_tree_def sample_bundle1_def)

text \<open>
  C5. When the root's reference parses, the text \<open>Print\<close> writes has as many
  \<open>Type: Bundle\<close> lines as the tree has bundle nodes below the root and as many
  \<open>Type: Image\<close> lines as it has image nodes, and each of these lines stands right
  after an \<open>Image:\<close> line and right before an \<open>Origin:\<close> line. A line is what one
  \<open>BeginLinef\<close> call writes.
\<close>

theorem Print_Type_lines:
  assumes "ParseReference (BundleDescription.Image d) = Inr r"
  shows "\<exists>text. Print ParseReference \<lparr>bundleTextPrinter.ui = ConfUI\<rparr> d out = Return (out @ text)
           \<and> length (filter is_Type_Bundle text) = length (BundleNodes d)
           \<and> length (filter is_Type_Image text) = length (ImageNodes d)
           \<and> Type_lines_framed text"
proof -
  let ?head = "[''Bundle SHA: '' @ Identifier r @ ''\<newline>'', ''\<newline>'']"
  let ?text = "?head @ printerRec d ConfUI []"
  have 1: "Print ParseReference \<lparr>bundleTextPrinter.ui = ConfUI\<rparr> d out = Return (out @ ?text)"
    using assms by (simp add: Print_parsed)
  have h: "filter is_Type_Bundle ?head = []" "filter is_Type_Image ?head = []"
    by (simp_all add: line_kinds unindent_def)
  have 2: "length (filter is_Type_Bundle ?text) = length (BundleNodes d)"
    unfolding filter_append h by (simp add: printerRec_counts)
  have 3: "length (filter is_Type_Image ?text) = length (ImageNodes d)"
    unfolding filter_append h by (simp add: printerRec_counts)
  have 4: "Type_lines_framed ?text"
    by (intro Type_lines_framed_append header_framed printerRec_framed)
  from 1 2 3 4 show ?thesis by blast
qed

theorem Print_Type_lines_witness:
  "\<exists>text. Print sample_ParseReference \<lparr>bundleTextPrinter.ui = ConfUI\<rparr> sample_tree [] = Return text
     \<and> length (filter is_Type_Bundle text) = 1
     \<and> length (filter is_Type_Image text) = 3
     \<and> Type_lines_framed text"
proof -
  have p: "sample_ParseReference (BundleDescription.Image sample_tree) =
             Inr (Digest ''localhost:5000/describe-test-collocated''
                    ''sha256:aaaaad700949154e429d28661d01c99d53a38af0d5275842ccbf0bf6dbef8ca4'')"
    by (simp add: sample_ParseReference_def sample_tree_def)
  have n: "length (BundleNodes sample_tree) = 1" "length (ImageNodes sample_tree) = 3"
    by (simp_all add: BundleNodes_def ImageNodes_def sample_tree_def sample_bundle1_def)
  show ?thesis
    using Print_Type_lines [of sample_ParseReference sample_tree _ "[]", OF p] by (simp add: n)
qed

text \<open>
  C6, as amended. The text \<open>printerRec\<close> writes for the root is the root's
  \<open>Images:\<close> label, not indented, and then the lines of the nodes below the root
  in the order of the tree. The three lines of the block of a node at depth \<open>k\<close>
  are indented by exactly \<open>k\<close> levels of two spaces: the children of the root by
  one level, their children by two, and siblings alike. The \<open>Images:\<close> label of a
  nested bundle stands right after that bundle's block, at the indentation of that
  block. So, without its labels, the text is the sequence of the blocks of the nodes.
\<close>

theorem printerRec_indentation_is_depth:
  "printerRec d ConfUI out = out @ ''Images:\<newline>'' # concat (map node_lines (nodes 0 d))
   \<and> filter (\<lambda>l. \<not> is_label l) (''Images:\<newline>'' # concat (map node_lines (nodes 0 d))) =
       concat (map node_block (nodes 0 d))"
  using printerRec_appends[of d ConfUI out] printerRec_node_blocks[of d] printerRec_node_lines[of d]
  by simp

text \<open>
  C6 as stated also has the text match the documented sample. It does not: in the
  format of the spec the label of a nested bundle and the nodes below it stand one level
  further in than \<open>printerRec\<close> puts them, which writes the nested label at the
  indentation of the bundle's own block and the image at depth 2 after four spaces,
  not six.
\<close>

theorem nested_tree_not_in_spec_format:
  "printerRec nested_tree ConfUI [] =
     [''Images:\<newline>'',
      ''  Image: '' @ sample_bundle1_ref @ ''\<newline>'',
      ''  Type: Bundle\<newline>'',
      ''  Origin: '' @ sample_bundle1_origin @ ''\<newline>'',
      ''  Images:\<newline>'',
      ''    Image: '' @ sample_img2_ref @ ''\<newline>'',
      ''    Type: Image\<newline>'',
      ''    Origin: '' @ sample_img2_origin @ ''\<newline>'']
   \<and> printerRec nested_tree ConfUI [] \<noteq> spec_format_nested"
  by (simp add: nested_tree_def spec_format_nested_def sample_img2_def NewIndentingUI_def)

text \<open>
  C7. For a root whose reference parses and whose lists of bundles and images are
  empty, \<open>Print\<close> writes exactly three lines: the header \<open>Bundle SHA:\<close> with the
  identifier of the parsed reference, an empty line, and the \<open>Images:\<close> label.
\<close>

theorem Print_empty_root:
  assumes "ParseReference (BundleDescription.Image d) = Inr r"
    and "Bundles (BundleDescription.Content d) = []"
    and "Images (BundleDescription.Content d) = []"
  shows "Print ParseReference \<lparr>bundleTextPrinter.ui = ConfUI\<rparr> d out =
           Return (out @ [''Bundle SHA: '' @ Identifier r @ ''\<newline>'',
                          ''\<newline>'',
                          ''Images:\<newline>''])"
  using assms by (simp add: Print_parsed printerRec_closed_form)

theorem Print_empty_root_witness:
  "Print sample_ParseReference \<lparr>bundleTextPrinter.ui = ConfUI\<rparr> empty_root [] =
     Return [''Bundle SHA: sha256:aaaaad700949154e429d28661d01c99d53a38af0d5275842ccbf0bf6dbef8ca4\<newline>'',
             ''\<newline>'',
             ''Images:\<newline>'']"
  using Print_empty_root
          [of sample_ParseReference empty_root
              "Digest ''localhost:5000/describe-test-collocated''
                 ''sha256:aaaaad700949154e429d28661d01c99d53a38af0d5275842ccbf0bf6dbef8ca4''" "[]"]
  by (simp add: sample_ParseReference_def empty_root_def)

text \<open>
  C1. The printer writes no \<open>Annotations:\<close> block. For the sample of the comment
  above the printer, whose first image carries the annotation
  \<open>kbld.carvel.dev/id\<close>, the text is the header, the labels and the three lines of
  each node: the \<open>Origin:\<close> line of the first image is followed at once by the
  \<open>Image:\<close> line of the second.
\<close>

theorem sample_annotation_not_printed:
  "Annotations sample_img1 \<noteq> Map.empty
   \<and> Print sample_ParseReference \<lparr>bundleTextPrinter.ui = ConfUI\<rparr> sample_tree [] =
       Return
        [''Bundle SHA: sha256:aaaaad700949154e429d28661d01c99d53a38af0d5275842ccbf0bf6dbef8ca4\<newline>'',
         ''\<newline>'',
         ''Images:\<newline>'',
         ''  Image: '' @ sample_bundle1_ref @ ''\<newline>'',
         ''  Type: Bundle\<newline>'',
         ''  Origin: '' @ sample_bundle1_origin @ ''\<newline>'',
         ''  Images:\<newline>'',
         ''    Image: '' @ sample_img1_ref @ ''\<newline>'',
         ''    Type: Image\<newline>'',
         ''    Origin: '' @ sample_img1_origin @ ''\<newline>'',
         ''    Image: '' @ sample_img2_ref @ ''\<newline>'',
         ''    Type: Image\<newline>'',
         ''    Origin: '' @ sample_img2_origin @ ''\<newline>'',
         ''  Image: '' @ sample_img2_ref @ ''\<newline>'',
         ''  Type: Image\<newline>'',
         ''  Origin: '' @ sample_img2_origin @ ''\<newline>'']"
  by (simp add: Print_def sample_ParseReference_def sample_tree_def sample_bundle1_def
        sample_img1_def sample_img2_def NewIndentingUI_def NewUIPrefixedWriter_def)

text \<open>
  C8. \<open>Print\<close> panics exactly when \<open>ParseReference\<close> answers with an error, and
  that function accepts a tag reference as well as a digest reference. For a root whose
  reference is \<open>my.registry.io/bundle1:latest\<close> there is no panic: the header shows
  the tag where the digest is expected.
\<close>

theorem tag_reference_does_not_panic:
  "Print sample_ParseReference \<lparr>bundleTextPrinter.ui = ConfUI\<rparr>
     (BundleDescription sample_tag_ref sample_tag_ref (Content.Content [] [])) [] =
     Return [''Bundle SHA: latest\<newline>'', ''\<newline>'', ''Images:\<newline>'']"
  by (simp add: Print_def sample_ParseReference_def sample_tag_ref_def sample_root_ref_def
        NewIndentingUI_def NewUIPrefixedWriter_def)

end
